theory Spec2Isabelle
  imports Main "HOL-Library.Sublist"
begin

section \<open>Python values, strings and dictionaries\<close>

text \<open>
  The program is a FastAPI service written in Python (\<^verbatim>\<open>src/app.py\<close>). Its values are
  dynamically typed: a dictionary entry or a session field holds \<^verbatim>\<open>None\<close>, a string, an
  integer or a boolean. A Python \<^verbatim>\<open>str\<close> is a sequence of code points; here a \<open>char\<close> stands
  for the code point of the same number, which covers every code point below 256 and so
  every literal of the source (the accented letters are written \<open>CHR 0xE9\<close> and so on).
\<close>

datatype pyval = PNone | PStr string | PInt int | PBool bool

datatype error = KeyError string | AttributeError string

type_synonym dict = "string \<rightharpoonup> pyval"

text \<open>\<^verbatim>\<open>d[k]\<close> on a plain dict: a missing key raises \<^verbatim>\<open>KeyError\<close>.\<close>

definition getitem :: "dict \<Rightarrow> string \<Rightarrow> error + pyval" where
  "getitem d k = (case d k of None \<Rightarrow> Inl (KeyError k) | Some v \<Rightarrow> Inr v)"

text \<open>Truth value of a Python object in \<^verbatim>\<open>if x:\<close>.\<close>

fun truthy :: "pyval \<Rightarrow> bool" where
  "truthy PNone = False"
| "truthy (PStr s) = (s \<noteq> [])"
| "truthy (PInt i) = (i \<noteq> 0)"
| "truthy (PBool b) = b"

text \<open>\<^verbatim>\<open>str.lower()\<close> on code points below 256: A-Z and the accented capitals
  (0xC0-0xDE without the multiplication sign 0xD7) move up by 32, that is, bit 5 is set.\<close>

definition is_upper :: "char \<Rightarrow> bool" where
  "is_upper c = (let n = (of_char c :: nat) in
     (65 \<le> n \<and> n \<le> 90) \<or> (192 \<le> n \<and> n \<le> 222 \<and> n \<noteq> 215))"

definition lower_char :: "char \<Rightarrow> char" where
  "lower_char c =
     (if is_upper c
      then (case c of Char b0 b1 b2 b3 b4 b5 b6 b7 \<Rightarrow> Char b0 b1 b2 b3 b4 True b6 b7)
      else c)"

definition lower :: "string \<Rightarrow> string" where
  "lower s = map lower_char s"

text \<open>\<^verbatim>\<open>str.strip()\<close>: removes leading and trailing white space (\<^verbatim>\<open>str.isspace\<close> below 256).\<close>

definition is_space :: "char \<Rightarrow> bool" where
  "is_space c = (let n = (of_char c :: nat) in
     (9 \<le> n \<and> n \<le> 13) \<or> (28 \<le> n \<and> n \<le> 32) \<or> n = 133 \<or> n = 160)"

definition strip :: "string \<Rightarrow> string" where
  "strip s = rev (dropWhile is_space (rev (dropWhile is_space s)))"

text \<open>\<^verbatim>\<open>kw in s\<close> on strings: \<open>kw\<close> occurs in \<open>s\<close> as a contiguous substring.\<close>

fun contains :: "string \<Rightarrow> string \<Rightarrow> bool" where
  "contains kw [] = (kw = [])"
| "contains kw (c # cs) = (prefix kw (c # cs) \<or> contains kw cs)"

text \<open>\<^verbatim>\<open>str(x)\<close>, as an f-string formats a value.\<close>

fun str_nat :: "nat \<Rightarrow> string" where
  "str_nat n =
     (if n < 10 then [''0123456789'' ! n]
      else str_nat (n div 10) @ [''0123456789'' ! (n mod 10)])"

declare str_nat.simps [simp del]

fun py_str :: "pyval \<Rightarrow> string" where
  "py_str PNone = ''None''"
| "py_str (PStr s) = s"
| "py_str (PInt i) = (if i < 0 then ''-'' @ str_nat (nat (- i)) else str_nat (nat i))"
| "py_str (PBool b) = (if b then ''True'' else ''False'')"


section \<open>The decision graph\<close>

text \<open>
  The graph lives in Neo4j and is not part of the repository. The program reads it through
  three Cypher queries, each ending in \<^verbatim>\<open>LIMIT 1\<close> and read with \<^verbatim>\<open>result.single()\<close>, so each
  yields one record or none. The graph is therefore a parameter: what each query answers.
  A record is the pair of its \<^verbatim>\<open>content\<close> and \<^verbatim>\<open>node_id\<close> columns (the \<^verbatim>\<open>type\<close> column is the
  literal the query itself returns).
\<close>

record graph =
  first_evaluation :: "pyval \<Rightarrow> (pyval \<times> pyval) option"
  answer_step :: "string \<Rightarrow> pyval \<Rightarrow> (pyval \<times> pyval) option"
  following_step :: "pyval \<Rightarrow> (pyval \<times> pyval) option"

text \<open>
  \<open>first_evaluation g name\<close>: the first question of the emergency \<open>name\<close> (lines 90-96);
  \<open>answer_step g rel last_node_id\<close>: the first step behind the edge \<open>rel\<close> (\<^verbatim>\<open>SI\<close> or \<^verbatim>\<open>NO\<close>) of
  a question (lines 120-128); \<open>following_step g last_node_id\<close>: the row of the
  \<^verbatim>\<open>OPTIONAL MATCH\<close> for the step after a step, whose columns are null when there is none
  (lines 146-154).
\<close>


section \<open>The node resolver: \<^verbatim>\<open>get_next_interaction\<close>\<close>

definition no_evaluations_message :: string where
  "no_evaluations_message =
     ''No se encontraron evaluaciones para esta emergencia. Por favor, busque ayuda m''
     @ [CHR 0xE9] @ ''dica.''"

definition no_next_step_message :: string where
  "no_next_step_message =
     ''No se encontr'' @ [CHR 0xF3]
     @ '' el paso siguiente para su respuesta. Por favor, busque ayuda m''
     @ [CHR 0xE9] @ ''dica.''"

definition clarify_message :: string where
  "clarify_message =
     ''Por favor, responda '' @ [CHR 0x27] @ ''s'' @ [CHR 0xED] @ [CHR 0x27] @ '' o ''
     @ [CHR 0x27] @ ''no'' @ [CHR 0x27] @ '' para continuar.''"

definition end_of_branch_message :: string where
  "end_of_branch_message =
     ''Hemos llegado al final de los pasos para esta rama. Por favor, busque ayuda m''
     @ [CHR 0xE9] @ ''dica si es necesario.''"

definition unexpected_error_message :: string where
  "unexpected_error_message =
     ''Ocurri'' @ [CHR 0xF3] @ '' un error inesperado en el flujo de la conversaci''
     @ [CHR 0xF3] @ ''n.''"

text \<open>Lines 110-116: which edge an answer selects. The affirmative test comes first.\<close>

definition rel_type_of :: "string \<Rightarrow> string option" where
  "rel_type_of response_lower =
     (if contains ''si'' response_lower \<or> contains (''s'' @ [CHR 0xED]) response_lower
         \<or> contains ''yes'' response_lower
      then Some ''SI''
      else if contains ''no'' response_lower \<or> contains ''not'' response_lower
      then Some ''NO''
      else None)"

text \<open>\<^verbatim>\<open>user_input_text.lower().strip()\<close>; the parameter defaults to \<^verbatim>\<open>None\<close>, which has no
  method \<^verbatim>\<open>lower\<close>.\<close>

definition lower_strip :: "pyval \<Rightarrow> error + string" where
  "lower_strip v =
     (case v of PStr s \<Rightarrow> Inr (strip (lower s)) | _ \<Rightarrow> Inl (AttributeError ''lower''))"

definition get_next_interaction ::
  "graph \<Rightarrow> pyval \<Rightarrow> pyval \<Rightarrow> pyval \<Rightarrow> pyval \<Rightarrow> bool \<Rightarrow> error + dict" where
  "get_next_interaction g emergency_name user_input_text last_node_id last_node_type
       is_waiting_for_answer =
     (if last_node_id = PNone \<and> \<not> is_waiting_for_answer then
        (case first_evaluation g emergency_name of
           Some (content, node_id) \<Rightarrow>
             Inr [''type'' \<mapsto> PStr ''question'', ''content'' \<mapsto> content,
                  ''node_id'' \<mapsto> node_id, ''is_end'' \<mapsto> PBool False]
         | None \<Rightarrow>
             Inr [''type'' \<mapsto> PStr ''end'', ''content'' \<mapsto> PStr no_evaluations_message,
                  ''is_end'' \<mapsto> PBool True])
      else if is_waiting_for_answer \<and> last_node_type = PStr ''question'' then
        (case lower_strip user_input_text of
           Inl e \<Rightarrow> Inl e
         | Inr response_lower \<Rightarrow>
             (case rel_type_of response_lower of
                Some rel_type \<Rightarrow>
                  (case answer_step g rel_type last_node_id of
                     Some (content, node_id) \<Rightarrow>
                       Inr [''type'' \<mapsto> PStr ''step'', ''content'' \<mapsto> content,
                            ''node_id'' \<mapsto> node_id, ''is_end'' \<mapsto> PBool False]
                   | None \<Rightarrow>
                       Inr [''type'' \<mapsto> PStr ''end'',
                            ''content'' \<mapsto> PStr no_next_step_message,
                            ''is_end'' \<mapsto> PBool True])
              | None \<Rightarrow>
                  Inr [''type'' \<mapsto> PStr ''clarify'', ''content'' \<mapsto> PStr clarify_message,
                       ''is_end'' \<mapsto> PBool False]))
      else if last_node_type = PStr ''step'' \<and> \<not> is_waiting_for_answer then
        (case following_step g last_node_id of
           Some (content, node_id) \<Rightarrow>
             if truthy content
             then Inr [''type'' \<mapsto> PStr ''step'', ''content'' \<mapsto> content,
                       ''node_id'' \<mapsto> node_id, ''is_end'' \<mapsto> PBool False]
             else Inr [''type'' \<mapsto> PStr ''end'', ''content'' \<mapsto> PStr end_of_branch_message,
                       ''is_end'' \<mapsto> PBool True]
         | None \<Rightarrow>
             Inr [''type'' \<mapsto> PStr ''end'', ''content'' \<mapsto> PStr end_of_branch_message,
                  ''is_end'' \<mapsto> PBool True])
      else
        Inr [''type'' \<mapsto> PStr ''error'', ''content'' \<mapsto> PStr unexpected_error_message,
             ''is_end'' \<mapsto> PBool True])"


section \<open>The emergency classifier: \<^verbatim>\<open>identify_emergency\<close>\<close>

text \<open>The keyword table, in the insertion order of the source's dict literal.\<close>

definition emergency_keywords :: "(string \<times> string) list" where
  "emergency_keywords =
   [(''ojo'', ''Cuerpo Extra'' @ [CHR 0xF1] @ ''o en el Ojo''),
    (''quemadura'', ''Quemaduras de Segundo Grado''),
    (''electrica'', ''Quemaduras El'' @ [CHR 0xE9] @ ''ctricas''),
    (''atragantamiento'', ''Atragantamiento en Adultos y Ni'' @ [CHR 0xF1] @ ''os Mayores''),
    (''convulsion'', ''Convulsiones (Post-Convulsi'' @ [CHR 0xF3] @ ''n y Protecci'' @ [CHR 0xF3] @ ''n)''),
    (''diente'', ''Dientes Rotos o Ca'' @ [CHR 0xED] @ ''dos''),
    (''respirar'', ''Dificultad para Respirar (Leve)''),
    (''fractura'', ''Fracturas Evidentes o Sospechosas''),
    (''hemorragia'', ''Hemorragia Severa''),
    (''ahogamiento'', ''Ahogamiento''),
    (''cabeza'', ''Golpe en la Cabeza''),
    (''corte'', ''Cortes y Raspaduras Menores''),
    (''esguince'', ''Esguinces y Torceduras Leves''),
    (''picadura'', ''Picaduras de Insectos (No Al'' @ [CHR 0xE9] @ ''rgicas)''),
    (''golpe'', ''Golpes y Contusiones Menores''),
    (''sangrado nasal'', ''Sangrado Nasal''),
    (''insolacion'', ''Insolaci'' @ [CHR 0xF3] @ ''n Leve / Agotamiento por Calor''),
    (''hipotermia'', ''Hipotermia Leve''),
    (''desmayo'', ''Desmayo (S'' @ [CHR 0xED] @ ''ncope Simple)''),
    (''rcp ni'' @ [CHR 0xF1] @ ''os'', ''RCP en Ni'' @ [CHR 0xF1] @ ''os (1 a 8 a'' @ [CHR 0xF1] @ ''os)''),
    (''rcp bebes'', ''RCP en Beb'' @ [CHR 0xE9] @ ''s (< 1 a'' @ [CHR 0xF1] @ ''o)''),
    (''rcp'', ''RCP en Adultos (Solo Manos)''),
    (''revision'', ''Revisi'' @ [CHR 0xF3] @ ''n B'' @ [CHR 0xE1] @ ''sica de Conciencia y Respiraci'' @ [CHR 0xF3] @ ''n'')]"

definition unrecognized_message :: string where
  "unrecognized_message =
     ''No se pudo identificar la emergencia espec'' @ [CHR 0xED]
     @ ''fica. Por favor, describa con m'' @ [CHR 0xE1] @ ''s detalle o diga ''
     @ [CHR 0x27] @ ''ayuda'' @ [CHR 0x27] @ '' para obtener un listado de emergencias.''"

text \<open>\<^verbatim>\<open>sorted(emergency_keywords.keys(), key=len, reverse=True)\<close>: Python's sort is stable,
  also with \<^verbatim>\<open>reverse=True\<close>, so keys of equal length keep the order of the dict.
  \<open>sort_key\<close> is a stable insertion sort; sorting by the negated length gives the longest
  first.\<close>

definition sorted_keywords :: "string list" where
  "sorted_keywords = sort_key (\<lambda>k. - int (length k)) (map fst emergency_keywords)"

text \<open>The loop of lines 284-286: the first keyword of the list that occurs in the text
  decides; \<^verbatim>\<open>emergency_keywords[keyword]\<close> is a dict lookup.\<close>

fun match_keywords :: "string list \<Rightarrow> string \<Rightarrow> (error + string) option" where
  "match_keywords [] text_lower = None"
| "match_keywords (keyword # rest) text_lower =
     (if contains keyword text_lower
      then (case map_of emergency_keywords keyword of
              Some e \<Rightarrow> Some (Inr e)
            | None \<Rightarrow> Some (Inl (KeyError keyword)))
      else match_keywords rest text_lower)"

definition identify_emergency :: "string \<Rightarrow> error + string" where
  "identify_emergency txt =
     (let text_lower = lower txt in
      case match_keywords sorted_keywords text_lower of
        Some r \<Rightarrow> r
      | None \<Rightarrow> Inr unrecognized_message)"


section \<open>Sessions, timers and memories\<close>

text \<open>
  One entry of \<^verbatim>\<open>session_states\<close>. Times are instants of one clock, counted in microseconds
  (the resolution of \<^verbatim>\<open>datetime\<close>); \<^verbatim>\<open>timedelta(seconds=n)\<close> is \<open>seconds n\<close>.
\<close>

record session_state =
  emergency :: pyval
  last_node_id :: pyval
  last_node_type :: pyval
  waiting_for_answer :: bool
  last_interaction_time :: int

definition seconds :: "int \<Rightarrow> int" where
  "seconds n = n * 1000000"

text \<open>
  An entry of \<^verbatim>\<open>timeout_tasks\<close> is the task running \<^verbatim>\<open>reset_if_no_response\<close>: until the
  instant its \<^verbatim>\<open>asyncio.sleep(60)\<close> ends it is \<open>Sleeping\<close>; once its body has run it is
  \<open>Finished\<close> (the program never removes a finished task from the dict by itself).
\<close>

datatype task = Sleeping int | Finished

text \<open>
  The three global dicts. No path of the program ever writes into a
  \<^verbatim>\<open>ConversationBufferMemory\<close>, so a memory has no content and \<^verbatim>\<open>conversation_memories\<close> is
  the set of its keys. \<open>phrasing_calls\<close> is not a variable of the program: it records the
  arguments of every call of \<^verbatim>\<open>_generate_llm_response\<close> (\<^verbatim>\<open>raw_content\<close>, \<^verbatim>\<open>session_id\<close>,
  \<^verbatim>\<open>is_emergency_end\<close>, \<^verbatim>\<open>original_type\<close>), so that statements about what the handler passes
  to the phrasing step can be made.
\<close>

record world =
  session_states :: "string \<rightharpoonup> session_state"
  timeout_tasks :: "string \<rightharpoonup> task"
  conversation_memories :: "string set"
  phrasing_calls :: "(pyval \<times> string \<times> pyval \<times> pyval) list"

definition initial_world :: world where
  "initial_world =
     \<lparr>session_states = Map.empty, timeout_tasks = Map.empty,
      conversation_memories = {}, phrasing_calls = []\<rparr>"

record user_message =
  message_text :: string
  session_id :: string


section \<open>The idle timeout: \<^verbatim>\<open>reset_if_no_response\<close>\<close>

definition timeout_delay :: int where
  "timeout_delay = seconds 60"

text \<open>Lines 297-314, the body that runs at the instant \<open>now\<close> when the sleep has ended.\<close>

definition reset_if_no_response :: "string \<Rightarrow> int \<Rightarrow> world \<Rightarrow> world" where
  "reset_if_no_response sid now w =
     (case session_states w sid of
        None \<Rightarrow> w
      | Some st \<Rightarrow>
          if now - last_interaction_time st \<ge> seconds 55
          then w\<lparr>session_states := (session_states w)(sid \<mapsto>
                    \<lparr>emergency = PNone, last_node_id = PNone, last_node_type = PNone,
                     waiting_for_answer = False, last_interaction_time = now\<rparr>),
                  conversation_memories := conversation_memories w - {sid}\<rparr>
          else w)"

text \<open>The event loop resumes a sleeping task no earlier than the end of its sleep; its body
  runs once and the task is finished. There is nothing to fire for a session without a
  sleeping task.\<close>

definition timeout_fires :: "string \<Rightarrow> int \<Rightarrow> world \<Rightarrow> world option" where
  "timeout_fires sid now w =
     (case timeout_tasks w sid of
        Some (Sleeping wake) \<Rightarrow>
          if wake \<le> now
          then Some (reset_if_no_response sid now
                       (w\<lparr>timeout_tasks := (timeout_tasks w)(sid \<mapsto> Finished)\<rparr>))
          else None
      | _ \<Rightarrow> None)"


section \<open>The phrasing step: \<^verbatim>\<open>_generate_llm_response\<close>\<close>

definition system_instruction_base :: string where
  "system_instruction_base =
     ''Eres un asistente de primeros auxilios. Tu objetivo es comunicar el paso o pregunta que te proporcionar''
     @ [CHR 0xE9]
     @ '' de manera extremadamente CLARA, SENCILLA y CALMADA. Usa un tono AMABLE y RECONFORTANTE. Cada respuesta debe ser breve y al punto, como si estuvieras guiando a alguien en una situaci''
     @ [CHR 0xF3] @ ''n de estr'' @ [CHR 0xE9]
     @ ''s.Si te paso el siguiente texto como paso o pregunta: '' @ [CHR 0x27] @ [CHR 0x27]
     @ unrecognized_message @ [CHR 0x27] @ [CHR 0x27]
     @ '' debes responder: que la emergencia est'' @ [CHR 0xE1]
     @ '' fuera de tu alcance y que se llame a la ambulancia lo m'' @ [CHR 0xE1]
     @ ''s pronto posible, importante: No le pidas datos en esa situaci'' @ [CHR 0xF3]
     @ ''n. ''"

definition escalation_instruction :: string where
  "escalation_instruction =
     [CHR 0x0A]
     @ ''IMPORTANTE: Si el flujo de primeros auxilios ha terminado o no hay una gu''
     @ [CHR 0xED]
     @ ''a clara, tu prioridad es indicar al usuario que llame a una ambulancia (160 en Bolivia) INMEDIATAMENTE. Aseg''
     @ [CHR 0xFA]
     @ ''rate de que este mensaje sea el principal y muy claro, reforzando la urgencia. No extiendas el mensaje con otra informaci''
     @ [CHR 0xF3] @ ''n, solo la llamada a emergencias.''"

definition escalation_fallback :: string where
  "escalation_fallback =
     ''Lo siento, no puedo procesar la informaci'' @ [CHR 0xF3]
     @ ''n en este momento. Por favor, '' @ [CHR 0xA1] @ ''comun'' @ [CHR 0xED]
     @ ''quese con una ambulancia al 160 lo antes posible!''"

definition generic_fallback :: "pyval \<Rightarrow> string" where
  "generic_fallback raw_content =
     ''Lo siento, tuve un problema al generar la respuesta. El mensaje original era: ''
     @ py_str raw_content @ ''. Por favor, busque ayuda m'' @ [CHR 0xE9]
     @ ''dica si es necesario.''"

text \<open>
  The Gemini service is outside the repository: a parameter that, given the system
  instruction and the prompt, answers with a text or fails (\<open>None\<close>: any exception inside the
  \<^verbatim>\<open>try\<close> block of lines 356-382).
\<close>

type_synonym gemini = "string \<Rightarrow> pyval \<Rightarrow> string option"

text \<open>Lines 328-353: the system instruction and the prompt sent to the model.\<close>

definition system_instruction_for :: "pyval \<Rightarrow> string" where
  "system_instruction_for is_emergency_end =
     (if truthy is_emergency_end then system_instruction_base @ escalation_instruction
      else system_instruction_base)"

definition prompt_text_for :: "pyval \<Rightarrow> pyval \<Rightarrow> pyval \<Rightarrow> pyval" where
  "prompt_text_for raw_content is_emergency_end original_type =
     (if truthy is_emergency_end then
        PStr (''La gu'' @ [CHR 0xED]
              @ ''a no puede continuar o ha concluido. Mensaje del sistema: '' @ [CHR 0x27]
              @ py_str raw_content @ [CHR 0x27]
              @ ''. Debes indicar que llamen a emergencias.'')
      else if original_type = PStr ''question'' then
        PStr (''La pregunta es: '' @ [CHR 0x27] @ py_str raw_content @ [CHR 0x27]
              @ ''. Por favor, form'' @ [CHR 0xFA] @ ''lala en un tono calmado y amigable.'')
      else if original_type = PStr ''step'' then
        PStr (''El paso a seguir es: '' @ [CHR 0x27] @ py_str raw_content @ [CHR 0x27]
              @ ''. Por favor, expl'' @ [CHR 0xED] @ ''calo de forma calmada y sencilla.'')
      else raw_content)"

definition generate_llm_response ::
  "gemini \<Rightarrow> pyval \<Rightarrow> string \<Rightarrow> pyval \<Rightarrow> pyval \<Rightarrow> world \<Rightarrow> string \<times> world" where
  "generate_llm_response llm raw_content sid is_emergency_end original_type w =
     (let w1 = w\<lparr>conversation_memories := insert sid (conversation_memories w),
                 phrasing_calls := phrasing_calls w
                   @ [(raw_content, sid, is_emergency_end, original_type)]\<rparr>
      in case llm (system_instruction_for is_emergency_end)
                  (prompt_text_for raw_content is_emergency_end original_type) of
           Some response_text \<Rightarrow> (response_text, w1)
         | None \<Rightarrow>
             if truthy is_emergency_end then (escalation_fallback, w1)
             else (generic_fallback raw_content, w1))"


section \<open>The session state machine: \<^verbatim>\<open>chat\<close>\<close>

definition reset_commands :: "string list" where
  "reset_commands = [''iniciar'', ''empezar'', ''reset'', ''reiniciar'', ''comenzar'']"

definition welcome_message :: string where
  "welcome_message =
     ''Hola, soy tu gu'' @ [CHR 0xED]
     @ ''a de primeros auxilios. Por favor, describe brevemente la emergencia para comenzar (ej: ''
     @ [CHR 0x27] @ ''Me cort'' @ [CHR 0xE9] @ '' un dedo'' @ [CHR 0x27] @ '', '' @ [CHR 0x27]
     @ ''Alguien se atraganta'' @ [CHR 0x27] @ '').''"

definition new_session_state :: "int \<Rightarrow> session_state" where
  "new_session_state now =
     \<lparr>emergency = PNone, last_node_id = PNone, last_node_type = PNone,
      waiting_for_answer = False, last_interaction_time = now\<rparr>"

text \<open>
  The block that follows each call of the resolver (lines 442-447, 469-474 and 486-491):
  four reads of the result dict with the writes to the session between them. A read of a
  missing key raises, and the writes made before it stay. The result is the exception, or
  \<^verbatim>\<open>raw_response_content\<close>, \<^verbatim>\<open>response_type\<close> and \<^verbatim>\<open>is_flow_end\<close>; with it the session as
  it then is.
\<close>

definition store_interaction ::
  "dict \<Rightarrow> session_state \<Rightarrow> (error + pyval \<times> pyval \<times> pyval) \<times> session_state" where
  "store_interaction next_interaction state =
     (case getitem next_interaction ''content'' of
        Inl e \<Rightarrow> (Inl e, state)
      | Inr raw_response_content \<Rightarrow>
      (case getitem next_interaction ''type'' of
        Inl e \<Rightarrow> (Inl e, state)
      | Inr response_type \<Rightarrow>
      (case getitem next_interaction ''node_id'' of
        Inl e \<Rightarrow> (Inl e, state)
      | Inr node_id \<Rightarrow>
          let state1 = state\<lparr>last_node_id := node_id\<rparr>;
              state2 = state1\<lparr>last_node_type := response_type\<rparr>;
              state3 = state2\<lparr>waiting_for_answer := (response_type = PStr ''question'')\<rparr>
          in (case getitem next_interaction ''is_end'' of
                Inl e \<Rightarrow> (Inl e, state3)
              | Inr is_flow_end \<Rightarrow>
                  (Inr (raw_response_content, response_type, is_flow_end), state3)))))"

text \<open>
  Lines 418-496: the branch on the command and on the session, acting on the session's
  dict \<open>state\<close>. The local variables start as \<^verbatim>\<open>""\<close>, \<^verbatim>\<open>""\<close> and \<^verbatim>\<open>False\<close>.
\<close>

definition handle_message ::
  "graph \<Rightarrow> string \<Rightarrow> session_state
     \<Rightarrow> (error + pyval \<times> pyval \<times> pyval) \<times> session_state" where
  "handle_message g txt state =
     (let user_text_lower = strip (lower txt) in
      if user_text_lower \<in> set reset_commands then
        (Inr (PStr welcome_message, PStr ''initial_message'', PBool False),
         state\<lparr>emergency := PNone, last_node_id := PNone, last_node_type := PNone,
               waiting_for_answer := False\<rparr>)
      else if user_text_lower = ''siguiente paso'' \<and> last_node_type state = PStr ''step''
              \<and> \<not> waiting_for_answer state then
        (case get_next_interaction g (emergency state) PNone (last_node_id state)
                (last_node_type state) False of
           Inl e \<Rightarrow> (Inl e, state)
         | Inr next_interaction \<Rightarrow> store_interaction next_interaction state)
      else if emergency state = PNone \<or> last_node_type state = PStr ''end'' then
        (case identify_emergency txt of
           Inl e \<Rightarrow> (Inl e, state)
         | Inr emergency_identified \<Rightarrow>
             if emergency_identified = unrecognized_message then
               (Inr (PStr emergency_identified, PStr ''clarify'', PBool False),
                state\<lparr>emergency := PNone, last_node_type := PNone, last_node_id := PNone,
                      waiting_for_answer := False\<rparr>)
             else
               (let state1 = state\<lparr>emergency := PStr emergency_identified,
                                  last_node_id := PNone, last_node_type := PNone,
                                  waiting_for_answer := False\<rparr>
                in case get_next_interaction g (emergency state1) PNone PNone PNone False of
                     Inl e \<Rightarrow> (Inl e, state1)
                   | Inr next_interaction \<Rightarrow> store_interaction next_interaction state1))
      else
        (case get_next_interaction g (emergency state) (PStr txt) (last_node_id state)
                (last_node_type state) (waiting_for_answer state) of
           Inl e \<Rightarrow> (Inl e, state)
         | Inr next_interaction \<Rightarrow>
             (case store_interaction next_interaction state of
                (Inl e, state') \<Rightarrow> (Inl e, state')
              | (Inr (raw_response_content, response_type, is_flow_end), state') \<Rightarrow>
                  if truthy is_flow_end
                  then (Inr (raw_response_content, response_type, is_flow_end),
                        state'\<lparr>emergency := PNone, last_node_type := PStr ''end''\<rparr>)
                  else (Inr (raw_response_content, response_type, is_flow_end), state'))))"

text \<open>Lines 400-408: a session seen for the first time gets a state and a memory.\<close>

definition ensure_session :: "string \<Rightarrow> int \<Rightarrow> world \<Rightarrow> world" where
  "ensure_session sid now w =
     (if sid \<notin> dom (session_states w)
      then w\<lparr>session_states := (session_states w)(sid \<mapsto> new_session_state now),
             conversation_memories := insert sid (conversation_memories w)\<rparr>
      else w)"

text \<open>
  The handler of \<^verbatim>\<open>POST /chat\<close>, for a message that arrives at the instant \<open>now\<close>. It answers
  with the text of \<^verbatim>\<open>{"response": ...}\<close>, or an exception leaves it (which the framework
  turns into a status 500); either way the globals are as the handler left them. The
  handler has no point at which the event loop could run another task: none of the
  coroutines it awaits suspends.
\<close>

definition chat ::
  "graph \<Rightarrow> gemini \<Rightarrow> int \<Rightarrow> user_message \<Rightarrow> world \<Rightarrow> (error + string) \<times> world" where
  "chat g llm now message w =
     (let sid = session_id message;
          w1 = ensure_session sid now w
      in case session_states w1 sid of
           None \<Rightarrow> (Inl (KeyError sid), w1)
         | Some st \<Rightarrow>
             let state = st\<lparr>last_interaction_time := now\<rparr>;
                 w2 = w1\<lparr>timeout_tasks := (timeout_tasks w1)(sid := None)\<rparr>;
                 (r, state') = handle_message g (message_text message) state;
                 w3 = w2\<lparr>session_states := (session_states w2)(sid \<mapsto> state')\<rparr>
             in case r of
                  Inl e \<Rightarrow> (Inl e, w3)
                | Inr (raw_response_content, response_type, is_flow_end) \<Rightarrow>
                    let (final_response_content, w4) =
                          generate_llm_response llm raw_response_content sid is_flow_end
                            response_type w3;
                        w5 = (if waiting_for_answer state'
                              then w4\<lparr>timeout_tasks := (timeout_tasks w4)(sid \<mapsto>
                                        Sleeping (now + timeout_delay))\<rparr>
                              else w4)
                    in (Inr final_response_content, w5))"

text \<open>The worlds the service can be in: it starts with empty dicts, and then messages
  arrive and sleeping timeout tasks wake up, in any order and at any instants.\<close>

inductive reachable :: "graph \<Rightarrow> gemini \<Rightarrow> world \<Rightarrow> bool" for g :: graph and llm :: gemini where
  start: "reachable g llm initial_world"
| message: "reachable g llm w \<Longrightarrow> reachable g llm (snd (chat g llm now m w))"
| timeout: "reachable g llm w \<Longrightarrow> timeout_fires sid now w = Some w' \<Longrightarrow> reachable g llm w'"


section \<open>A small graph and an unreachable model, for concrete runs\<close>

text \<open>
  One emergency, \<open>Hemorragia Severa\<close>, with the question 1; its \<^verbatim>\<open>SI\<close> edge leads to the
  step 2, it has no \<^verbatim>\<open>NO\<close> edge, and no step follows the step 2.
\<close>

definition example_graph :: graph where
  "example_graph =
     \<lparr>first_evaluation = (\<lambda>name.
         if name = PStr ''Hemorragia Severa''
         then Some (PStr ''La herida sangra mucho?'', PInt 1) else None),
      answer_step = (\<lambda>rel node.
         if rel = ''SI'' \<and> node = PInt 1
         then Some (PStr ''Presione la herida con un pano limpio'', PInt 2) else None),
      following_step = (\<lambda>node.
         if node = PInt 2 then Some (PNone, PNone) else None)\<rparr>"

definition gemini_down :: gemini where
  "gemini_down = (\<lambda>system_instruction prompt_text. None)"


text \<open>
  Two worlds of one session \<open>s1\<close> on that graph, with the model down: after the first
  message \<open>hemorragia\<close> at the instant 0 the session waits for the answer to the question 1;
  after the answer \<open>Si\<close> five seconds later it stands at the step 2; \<open>ojo_message\<close> names an
  emergency for which the graph has no question.
\<close>

definition awaiting_world :: world where
  "awaiting_world =
     snd (chat example_graph gemini_down 0
            \<lparr>message_text = ''hemorragia'', session_id = ''s1''\<rparr> initial_world)"

definition in_step_world :: world where
  "in_step_world =
     snd (chat example_graph gemini_down (seconds 5)
            \<lparr>message_text = ''Si'', session_id = ''s1''\<rparr> awaiting_world)"

definition ojo_message :: user_message where
  "ojo_message = \<lparr>message_text = ''Tengo algo en el ojo'', session_id = ''s2''\<rparr>"


section \<open>Properties of the classifier\<close>

lemma contains_sublist: "contains kw s = sublist kw s"
  by (induction s) (auto simp: sublist_Cons_right)

lemma sorted_keywords_eq:
  "sorted_keywords =
     [''atragantamiento'', ''sangrado nasal'', ''ahogamiento'', ''convulsion'', ''hemorragia'',
      ''insolacion'', ''hipotermia'', ''quemadura'', ''electrica'',
      ''rcp ni'' @ [CHR 0xF1] @ ''os'', ''rcp bebes'', ''respirar'', ''fractura'', ''esguince'',
      ''picadura'', ''revision'', ''desmayo'', ''diente'', ''cabeza'', ''corte'', ''golpe'',
      ''ojo'', ''rcp'']"
  by (simp add: sorted_keywords_def emergency_keywords_def)

lemma match_keywords_longest:
  "sorted (map (\<lambda>k. - int (length k)) ks) \<Longrightarrow> set ks \<subseteq> fst ` set emergency_keywords
   \<Longrightarrow> k \<in> set ks \<Longrightarrow> contains k t
   \<Longrightarrow> \<exists>k' e. k' \<in> set ks \<and> contains k' t
          \<and> (\<forall>k''\<in>set ks. contains k'' t \<longrightarrow> length k'' \<le> length k')
          \<and> map_of emergency_keywords k' = Some e \<and> match_keywords ks t = Some (Inr e)"
proof (induction ks)
  case Nil
  then show ?case by simp
next
  case (Cons a ks)
  show ?case
  proof (cases "contains a t")
    case True
    from Cons.prems(2) have "a \<in> fst ` set emergency_keywords" by simp
    then obtain e where e: "map_of emergency_keywords a = Some e"
      by (metis domD dom_map_of_conv_image_fst)
    from Cons.prems(1) have "\<forall>k''\<in>set (a # ks). length k'' \<le> length a" by auto
    with True e show ?thesis by auto
  next
    case False
    with Cons.prems have "k \<in> set ks" by auto
    moreover from Cons.prems have "sorted (map (\<lambda>k. - int (length k)) ks)"
      and "set ks \<subseteq> fst ` set emergency_keywords" by auto
    ultimately obtain k' e where "k' \<in> set ks" "contains k' t"
        "\<forall>k''\<in>set ks. contains k'' t \<longrightarrow> length k'' \<le> length k'"
        "map_of emergency_keywords k' = Some e" "match_keywords ks t = Some (Inr e)"
      using Cons.IH Cons.prems(4) by blast
    with False show ?thesis by auto
  qed
qed

lemma match_keywords_no_KeyError:
  "set ks \<subseteq> fst ` set emergency_keywords \<Longrightarrow> match_keywords ks t \<noteq> Some (Inl e)"
proof (induction ks)
  case Nil
  then show ?case by simp
next
  case (Cons a ks)
  from Cons.prems have "a \<in> fst ` set emergency_keywords" by simp
  then obtain v where "map_of emergency_keywords a = Some v"
    by (metis domD dom_map_of_conv_image_fst)
  with Cons show ?case by auto
qed

lemma identify_emergency_total: "\<exists>e. identify_emergency t = Inr e"
proof -
  have "set sorted_keywords \<subseteq> fst ` set emergency_keywords"
    by (simp add: sorted_keywords_def)
  then have "\<And>e. match_keywords sorted_keywords (lower t) \<noteq> Some (Inl e)"
    by (rule match_keywords_no_KeyError)
  then show ?thesis
    by (cases "match_keywords sorted_keywords (lower t)")
       (auto simp: identify_emergency_def intro: sum.exhaust)
qed

lemma identify_hemorragia: "identify_emergency ''hemorragia'' = Inr ''Hemorragia Severa''"
  by (simp add: identify_emergency_def sorted_keywords_eq lower_def lower_char_def
        is_upper_def emergency_keywords_def)

text \<open>
  C9. The classifier tries the keywords longest first. The text
  \<open>emergencia rcp bebes en curso\<close> is classified by the keyword \<open>rcp bebes\<close>, not by the
  shorter \<open>rcp\<close>. For every text in which some keyword occurs, the answer is the emergency
  of a keyword that occurs in the lowercased text and that no other occurring keyword
  exceeds in length.
\<close>

theorem identify_emergency_longest_first:
  "identify_emergency ''emergencia rcp bebes en curso''
     = Inr (''RCP en Beb'' @ [CHR 0xE9] @ ''s (< 1 a'' @ [CHR 0xF1] @ ''o)'')
   \<and> identify_emergency ''emergencia rcp bebes en curso'' \<noteq> Inr ''RCP en Adultos (Solo Manos)''
   \<and> (\<forall>txt. (\<exists>k \<in> fst ` set emergency_keywords. sublist k (lower txt)) \<longrightarrow>
        (\<exists>k \<in> fst ` set emergency_keywords. \<exists>e.
            sublist k (lower txt)
          \<and> (\<forall>k' \<in> fst ` set emergency_keywords.
                sublist k' (lower txt) \<longrightarrow> length k' \<le> length k)
          \<and> map_of emergency_keywords k = Some e
          \<and> identify_emergency txt = Inr e))"
proof (intro conjI allI impI)
  show a: "identify_emergency ''emergencia rcp bebes en curso''
     = Inr (''RCP en Beb'' @ [CHR 0xE9] @ ''s (< 1 a'' @ [CHR 0xF1] @ ''o)'')"
    by (simp add: identify_emergency_def sorted_keywords_eq lower_def lower_char_def
          is_upper_def emergency_keywords_def)
  show "identify_emergency ''emergencia rcp bebes en curso''
          \<noteq> Inr ''RCP en Adultos (Solo Manos)''"
    unfolding a by simp
next
  fix t :: string
  assume "\<exists>k \<in> fst ` set emergency_keywords. sublist k (lower t)"
  then obtain k where k: "k \<in> fst ` set emergency_keywords" "contains k (lower t)"
    by (auto simp: contains_sublist)
  have s: "set sorted_keywords = fst ` set emergency_keywords"
    by (simp add: sorted_keywords_def)
  have "sorted (map (\<lambda>k. - int (length k)) sorted_keywords)"
    by (simp add: sorted_keywords_def)
  moreover have "set sorted_keywords \<subseteq> fst ` set emergency_keywords"
    and "k \<in> set sorted_keywords"
    using k(1) s by auto
  ultimately have "\<exists>k' e. k' \<in> set sorted_keywords \<and> contains k' (lower t)
          \<and> (\<forall>k''\<in>set sorted_keywords. contains k'' (lower t) \<longrightarrow> length k'' \<le> length k')
          \<and> map_of emergency_keywords k' = Some e
          \<and> match_keywords sorted_keywords (lower t) = Some (Inr e)"
    using k(2) by (rule match_keywords_longest)
  then obtain k' e where "k' \<in> set sorted_keywords" "contains k' (lower t)"
      "\<forall>k''\<in>set sorted_keywords. contains k'' (lower t) \<longrightarrow> length k'' \<le> length k'"
      "map_of emergency_keywords k' = Some e"
      "match_keywords sorted_keywords (lower t) = Some (Inr e)"
    by auto
  then show "\<exists>k \<in> fst ` set emergency_keywords. \<exists>e.
            sublist k (lower t)
          \<and> (\<forall>k' \<in> fst ` set emergency_keywords.
                sublist k' (lower t) \<longrightarrow> length k' \<le> length k)
          \<and> map_of emergency_keywords k = Some e
          \<and> identify_emergency t = Inr e"
    unfolding s[symmetric] contains_sublist[symmetric]
    by (auto simp: identify_emergency_def)
qed

theorem identify_emergency_longest_first_witness:
  "(\<exists>k \<in> fst ` set emergency_keywords. sublist k (lower ''Un GOLPE en la cabeza''))
   \<and> (\<exists>k \<in> fst ` set emergency_keywords. \<exists>e.
          sublist k (lower ''Un GOLPE en la cabeza'')
        \<and> (\<forall>k' \<in> fst ` set emergency_keywords.
              sublist k' (lower ''Un GOLPE en la cabeza'') \<longrightarrow> length k' \<le> length k)
        \<and> map_of emergency_keywords k = Some e
        \<and> identify_emergency ''Un GOLPE en la cabeza'' = Inr e)"
proof -
  have "''golpe'' \<in> fst ` set emergency_keywords"
    by (simp add: emergency_keywords_def)
  moreover have "sublist ''golpe'' (lower ''Un GOLPE en la cabeza'')"
    unfolding contains_sublist[symmetric]
    by (simp add: lower_def lower_char_def is_upper_def)
  ultimately have h: "\<exists>k \<in> fst ` set emergency_keywords.
      sublist k (lower ''Un GOLPE en la cabeza'')"
    by blast
  with identify_emergency_longest_first show ?thesis
    by blast
qed


section \<open>Properties of the resolver\<close>

text \<open>
  C10. In the answer query the affirmative test comes first and both tests are substring
  tests on the lowercased, stripped text: whenever \<open>si\<close>, \<open>s\<close> with an accented i (code
  point 0xED) or \<open>yes\<close> occurs
  anywhere in it, the \<^verbatim>\<open>SI\<close> edge is followed; the \<^verbatim>\<open>NO\<close> edge is followed when none of them
  occurs and \<open>no\<close> or \<open>not\<close> does; otherwise the resolver asks to clarify. So \<open>Siguiente\<close> and
  \<open>si no\<close> both count as yes.
\<close>

theorem answer_affirmative_first:
  "(let r = strip (lower txt);
        affirmative = (sublist ''si'' r \<or> sublist (''s'' @ [CHR 0xED]) r \<or> sublist ''yes'' r);
        negative = (sublist ''no'' r \<or> sublist ''not'' r);
        followed = (\<lambda>rel. case answer_step g rel node of
                      Some (content, node_id) \<Rightarrow>
                        Inr [''type'' \<mapsto> PStr ''step'', ''content'' \<mapsto> content,
                             ''node_id'' \<mapsto> node_id, ''is_end'' \<mapsto> PBool False]
                    | None \<Rightarrow>
                        Inr [''type'' \<mapsto> PStr ''end'', ''content'' \<mapsto> PStr no_next_step_message,
                             ''is_end'' \<mapsto> PBool True]);
        result = get_next_interaction g name (PStr txt) node (PStr ''question'') True
    in (affirmative \<longrightarrow> result = followed ''SI'')
     \<and> (\<not> affirmative \<and> negative \<longrightarrow> result = followed ''NO'')
     \<and> (\<not> affirmative \<and> \<not> negative \<longrightarrow>
          result = Inr [''type'' \<mapsto> PStr ''clarify'', ''content'' \<mapsto> PStr clarify_message,
                        ''is_end'' \<mapsto> PBool False]))
   \<and> rel_type_of (strip (lower ''Siguiente'')) = Some ''SI''
   \<and> rel_type_of (strip (lower '' si no '')) = Some ''SI''
   \<and> rel_type_of (strip (lower ''No'')) = Some ''NO''"
proof (intro conjI)
  show "rel_type_of (strip (lower ''Siguiente'')) = Some ''SI''"
    by (simp add: rel_type_of_def strip_def lower_def lower_char_def is_upper_def is_space_def)
  show "rel_type_of (strip (lower '' si no '')) = Some ''SI''"
    by (simp add: rel_type_of_def strip_def lower_def lower_char_def is_upper_def is_space_def)
  show "rel_type_of (strip (lower ''No'')) = Some ''NO''"
    by (simp add: rel_type_of_def strip_def lower_def lower_char_def is_upper_def is_space_def)
qed (simp add: Let_def get_next_interaction_def lower_strip_def rel_type_of_def contains_sublist
       split: option.splits)

theorem answer_affirmative_first_witness:
  "sublist ''si'' (strip (lower ''Siguiente paso''))
   \<and> get_next_interaction example_graph (PStr ''Hemorragia Severa'') (PStr ''Siguiente paso'')
        (PInt 1) (PStr ''question'') True
      = Inr [''type'' \<mapsto> PStr ''step'',
             ''content'' \<mapsto> PStr ''Presione la herida con un pano limpio'',
             ''node_id'' \<mapsto> PInt 2, ''is_end'' \<mapsto> PBool False]"
proof -
  have h: "sublist ''si'' (strip (lower ''Siguiente paso''))"
    unfolding contains_sublist[symmetric]
    by (simp add: strip_def lower_def lower_char_def is_upper_def is_space_def)
  from answer_affirmative_first[of "''Siguiente paso''" example_graph "PInt 1" "PStr ''Hemorragia Severa''"] h
  show ?thesis
    by (simp add: Let_def example_graph_def)
qed


section \<open>Properties of the handler\<close>

lemmas text_simps = strip_def lower_def lower_char_def is_upper_def is_space_def

lemma store_interaction_time:
  "last_interaction_time (snd (store_interaction d st)) = last_interaction_time st"
  by (simp add: store_interaction_def Let_def split: sum.splits)

lemma store_interaction_waiting:
  "waiting_for_answer st \<longrightarrow> last_node_type st = PStr ''question'' \<Longrightarrow>
   waiting_for_answer (snd (store_interaction d st))
     \<longrightarrow> last_node_type (snd (store_interaction d st)) = PStr ''question''"
  by (simp add: store_interaction_def Let_def split: sum.splits)

lemma store_interaction_missing_node_id:
  "d ''content'' \<noteq> None \<Longrightarrow> d ''type'' \<noteq> None \<Longrightarrow> d ''node_id'' = None \<Longrightarrow>
   store_interaction d st = (Inl (KeyError ''node_id''), st)"
  by (auto simp: store_interaction_def getitem_def)

lemma get_next_interaction_is_end:
  "get_next_interaction g name txt node ty waiting = Inr d \<Longrightarrow> d ''is_end'' = Some ie \<Longrightarrow>
   truthy ie \<Longrightarrow> d ''content'' \<noteq> None \<and> d ''type'' \<noteq> None \<and> d ''node_id'' = None"
  by (auto simp: get_next_interaction_def split: if_splits option.splits sum.splits)

lemma store_interaction_never_end:
  assumes "get_next_interaction g name txt node ty waiting = Inr d"
    and "store_interaction d st = (Inr (raw, rty, ie), st')"
  shows "\<not> truthy ie"
proof
  assume t: "truthy ie"
  from assms(2) have "d ''is_end'' = Some ie"
    by (auto simp: store_interaction_def getitem_def Let_def split: option.splits)
  from get_next_interaction_is_end[OF assms(1) this t]
  have "store_interaction d st = (Inl (KeyError ''node_id''), st)"
    by (intro store_interaction_missing_node_id) auto
  with assms(2) show False by simp
qed

lemma handle_message_time:
  "last_interaction_time (snd (handle_message g t st)) = last_interaction_time st"
  by (auto simp: handle_message_def Let_def store_interaction_time
      split: sum.splits prod.splits
      dest: arg_cong[where f="\<lambda>p. last_interaction_time (snd p)"])

lemma handle_message_reset:
  "strip (lower t) \<in> set reset_commands \<Longrightarrow>
   handle_message g t st =
     (Inr (PStr welcome_message, PStr ''initial_message'', PBool False),
      st\<lparr>emergency := PNone, last_node_id := PNone, last_node_type := PNone,
         waiting_for_answer := False\<rparr>)"
  by (simp add: handle_message_def)

lemma handle_message_next_step:
  assumes a: "strip (lower t) \<notin> set reset_commands"
    and b: "strip (lower t) = ''siguiente paso'' \<and> last_node_type st = PStr ''step''
     \<and> \<not> waiting_for_answer st"
  shows "handle_message g t st =
     (case get_next_interaction g (emergency st) PNone (last_node_id st)
             (last_node_type st) False of
        Inl e \<Rightarrow> (Inl e, st)
      | Inr next_interaction \<Rightarrow> store_interaction next_interaction st)"
  unfolding handle_message_def Let_def
  by (simp only: if_not_P[OF a] if_P[OF b])

lemma handle_message_classify:
  assumes a: "strip (lower t) \<notin> set reset_commands"
    and b: "\<not> (strip (lower t) = ''siguiente paso'' \<and> last_node_type st = PStr ''step''
     \<and> \<not> waiting_for_answer st)"
    and c: "emergency st = PNone \<or> last_node_type st = PStr ''end''"
  shows "handle_message g t st =
     (case identify_emergency t of
        Inl e \<Rightarrow> (Inl e, st)
      | Inr emergency_identified \<Rightarrow>
          if emergency_identified = unrecognized_message then
            (Inr (PStr emergency_identified, PStr ''clarify'', PBool False),
             st\<lparr>emergency := PNone, last_node_type := PNone, last_node_id := PNone,
                waiting_for_answer := False\<rparr>)
          else
            (case get_next_interaction g (PStr emergency_identified) PNone PNone PNone False of
               Inl e \<Rightarrow>
                 (Inl e, st\<lparr>emergency := PStr emergency_identified, last_node_id := PNone,
                            last_node_type := PNone, waiting_for_answer := False\<rparr>)
             | Inr next_interaction \<Rightarrow>
                 store_interaction next_interaction
                   (st\<lparr>emergency := PStr emergency_identified, last_node_id := PNone,
                       last_node_type := PNone, waiting_for_answer := False\<rparr>)))"
  unfolding handle_message_def Let_def
  by (simp only: if_not_P[OF a] if_not_P[OF b] if_P[OF c]) (simp split: sum.splits)

lemma handle_message_continue:
  assumes a: "strip (lower t) \<notin> set reset_commands"
    and b: "\<not> (strip (lower t) = ''siguiente paso'' \<and> last_node_type st = PStr ''step''
     \<and> \<not> waiting_for_answer st)"
    and c: "\<not> (emergency st = PNone \<or> last_node_type st = PStr ''end'')"
  shows "handle_message g t st =
     (case get_next_interaction g (emergency st) (PStr t) (last_node_id st)
             (last_node_type st) (waiting_for_answer st) of
        Inl e \<Rightarrow> (Inl e, st)
      | Inr next_interaction \<Rightarrow>
          (case store_interaction next_interaction st of
             (Inl e, state') \<Rightarrow> (Inl e, state')
           | (Inr (raw_response_content, response_type, is_flow_end), state') \<Rightarrow>
               if truthy is_flow_end
               then (Inr (raw_response_content, response_type, is_flow_end),
                     state'\<lparr>emergency := PNone, last_node_type := PStr ''end''\<rparr>)
               else (Inr (raw_response_content, response_type, is_flow_end), state')))"
  unfolding handle_message_def Let_def
  by (simp only: if_not_P[OF a] if_not_P[OF b] if_not_P[OF c])

lemma handle_message_waiting:
  assumes "waiting_for_answer st \<longrightarrow> last_node_type st = PStr ''question''"
  shows "waiting_for_answer (snd (handle_message g t st))
     \<longrightarrow> last_node_type (snd (handle_message g t st)) = PStr ''question''"
proof -
  let ?u = "strip (lower t)"
  consider (reset) "?u \<in> set reset_commands"
    | (next_step) "?u \<notin> set reset_commands" "?u = ''siguiente paso'' \<and> last_node_type st = PStr ''step''
              \<and> \<not> waiting_for_answer st"
    | (classify) "?u \<notin> set reset_commands" "\<not> (?u = ''siguiente paso'' \<and> last_node_type st = PStr ''step''
              \<and> \<not> waiting_for_answer st)" "emergency st = PNone \<or> last_node_type st = PStr ''end''"
    | (continue) "?u \<notin> set reset_commands" "\<not> (?u = ''siguiente paso'' \<and> last_node_type st = PStr ''step''
              \<and> \<not> waiting_for_answer st)" "\<not> (emergency st = PNone \<or> last_node_type st = PStr ''end'')"
    by blast
  then show ?thesis
  proof cases
    case reset
    then show ?thesis by (simp add: handle_message_reset)
  next
    case next_step
    show ?thesis
      unfolding handle_message_next_step[OF next_step]
      using store_interaction_waiting[OF assms] assms
      by (simp split: sum.splits)
  next
    case classify
    show ?thesis
      unfolding handle_message_classify[OF classify]
      using store_interaction_waiting assms
      by (simp split: sum.splits)
  next
    case continue
    let ?r = "get_next_interaction g (emergency st) (PStr t) (last_node_id st)
                (last_node_type st) (waiting_for_answer st)"
    note eq = handle_message_continue[OF continue, of g]
    show ?thesis
    proof (cases ?r)
      case (Inl e)
      then have "handle_message g t st = (Inl e, st)"
        by (simp add: eq)
      with assms show ?thesis by simp
    next
      case (Inr d)
      obtain r st' where s: "store_interaction d st = (r, st')" by force
      from store_interaction_waiting[OF assms, of d] s
      have w: "waiting_for_answer st' \<longrightarrow> last_node_type st' = PStr ''question''" by simp
      show ?thesis
      proof (cases r)
        case (Inl e)
        with Inr s have "handle_message g t st = (Inl e, st')"
          by (simp add: eq)
        with w show ?thesis by simp
      next
        case r: (Inr p)
        obtain raw rty ie where p: "p = (raw, rty, ie)" by (cases p) auto
        from store_interaction_never_end[OF Inr] s r p
        have "\<not> truthy ie" by simp
        with Inr s r p have "handle_message g t st = (Inr (raw, rty, ie), st')"
          by (simp add: eq)
        with w show ?thesis by simp
      qed
    qed
  qed
qed

lemma chat_session_states:
  "session_states (snd (chat g llm now m w)) =
     (session_states w)(session_id m \<mapsto>
        snd (handle_message g (message_text m)
              ((case session_states w (session_id m) of
                  None \<Rightarrow> new_session_state now | Some st \<Rightarrow> st)
               \<lparr>last_interaction_time := now\<rparr>)))"
  by (auto simp: chat_def ensure_session_def Let_def generate_llm_response_def
      split: option.splits sum.splits prod.splits)

lemma chat_timeout_tasks:
  "timeout_tasks (snd (chat g llm now m w)) =
     (let h = handle_message g (message_text m)
                ((case session_states w (session_id m) of
                    None \<Rightarrow> new_session_state now | Some st \<Rightarrow> st)
                 \<lparr>last_interaction_time := now\<rparr>)
      in case fst h of
           Inl e \<Rightarrow> (timeout_tasks w)(session_id m := None)
         | Inr p \<Rightarrow>
             if waiting_for_answer (snd h)
             then (timeout_tasks w)(session_id m \<mapsto> Sleeping (now + timeout_delay))
             else (timeout_tasks w)(session_id m := None))"
  by (auto simp: chat_def ensure_session_def Let_def generate_llm_response_def
      split: option.splits sum.splits prod.splits)

lemma chat_phrasing_calls:
  "phrasing_calls (snd (chat g llm now m w)) =
     (case fst (handle_message g (message_text m)
                ((case session_states w (session_id m) of
                    None \<Rightarrow> new_session_state now | Some st \<Rightarrow> st)
                 \<lparr>last_interaction_time := now\<rparr>)) of
        Inl e \<Rightarrow> phrasing_calls w
      | Inr (raw, rty, ie) \<Rightarrow> phrasing_calls w @ [(raw, session_id m, ie, rty)])"
  by (auto simp: chat_def ensure_session_def Let_def generate_llm_response_def
      split: option.splits sum.splits prod.splits)

lemma chat_response:
  "fst (chat g llm now m w) =
     (case fst (handle_message g (message_text m)
                ((case session_states w (session_id m) of
                    None \<Rightarrow> new_session_state now | Some st \<Rightarrow> st)
                 \<lparr>last_interaction_time := now\<rparr>)) of
        Inl e \<Rightarrow> Inl e
      | Inr (raw, rty, ie) \<Rightarrow>
          Inr (case llm (system_instruction_for ie) (prompt_text_for raw ie rty) of
                 Some response_text \<Rightarrow> response_text
               | None \<Rightarrow> if truthy ie then escalation_fallback else generic_fallback raw))"
  by (auto simp: chat_def ensure_session_def Let_def generate_llm_response_def
      split: option.splits sum.splits prod.splits)


section \<open>Concrete runs\<close>

text \<open>The runs below are evaluated from the definitions; the later sections refer to them.\<close>

lemma identify_ojo:
  "identify_emergency ''Tengo algo en el ojo'' = Inr (''Cuerpo Extra'' @ [CHR 0xF1] @ ''o en el Ojo'')"
  by (simp add: identify_emergency_def sorted_keywords_eq lower_def lower_char_def
        is_upper_def emergency_keywords_def)

lemma handle_hemorragia:
  "handle_message example_graph ''hemorragia'' (new_session_state 0\<lparr>last_interaction_time := 0\<rparr>)
    = (Inr (PStr ''La herida sangra mucho?'', PStr ''question'', PBool False),
       \<lparr>emergency = PStr ''Hemorragia Severa'', last_node_id = PInt 1,
        last_node_type = PStr ''question'', waiting_for_answer = True,
        last_interaction_time = 0\<rparr>)"
  by (simp add: handle_message_def text_simps reset_commands_def new_session_state_def
        identify_hemorragia unrecognized_message_def get_next_interaction_def example_graph_def
        store_interaction_def getitem_def)

lemma awaiting_world_eq:
  "awaiting_world =
     \<lparr>session_states = [''s1'' \<mapsto>
        \<lparr>emergency = PStr ''Hemorragia Severa'', last_node_id = PInt 1,
         last_node_type = PStr ''question'', waiting_for_answer = True,
         last_interaction_time = 0\<rparr>],
      timeout_tasks = [''s1'' \<mapsto> Sleeping (seconds 60)],
      conversation_memories = {''s1''},
      phrasing_calls = [(PStr ''La herida sangra mucho?'', ''s1'', PBool False, PStr ''question'')]\<rparr>"
  by (simp add: awaiting_world_def chat_def ensure_session_def initial_world_def handle_hemorragia
        generate_llm_response_def gemini_down_def timeout_delay_def Let_def)

lemma in_step_world_eq:
  "in_step_world =
     \<lparr>session_states = [''s1'' \<mapsto>
        \<lparr>emergency = PStr ''Hemorragia Severa'', last_node_id = PInt 2,
         last_node_type = PStr ''step'', waiting_for_answer = False,
         last_interaction_time = seconds 5\<rparr>],
      timeout_tasks = Map.empty,
      conversation_memories = {''s1''},
      phrasing_calls = [(PStr ''La herida sangra mucho?'', ''s1'', PBool False, PStr ''question''),
        (PStr ''Presione la herida con un pano limpio'', ''s1'', PBool False, PStr ''step'')]\<rparr>"
  by (simp add: in_step_world_def awaiting_world_eq chat_def ensure_session_def handle_message_def
        text_simps reset_commands_def get_next_interaction_def lower_strip_def rel_type_of_def
        example_graph_def store_interaction_def getitem_def
        generate_llm_response_def gemini_down_def Let_def)

lemma chat_awaiting_tal_vez:
  "chat example_graph gemini_down (seconds 10)
     \<lparr>message_text = ''tal vez'', session_id = ''s1''\<rparr> awaiting_world
   = (Inl (KeyError ''node_id''),
      \<lparr>session_states = [''s1'' \<mapsto>
        \<lparr>emergency = PStr ''Hemorragia Severa'', last_node_id = PInt 1,
         last_node_type = PStr ''question'', waiting_for_answer = True,
         last_interaction_time = seconds 10\<rparr>],
      timeout_tasks = Map.empty,
      conversation_memories = {''s1''},
      phrasing_calls = [(PStr ''La herida sangra mucho?'', ''s1'', PBool False, PStr ''question'')]\<rparr>)"
  by (simp add: awaiting_world_eq chat_def ensure_session_def handle_message_def text_simps
        reset_commands_def get_next_interaction_def lower_strip_def rel_type_of_def
        store_interaction_def getitem_def Let_def)

lemma chat_awaiting_no:
  "chat example_graph gemini_down (seconds 10)
     \<lparr>message_text = ''no'', session_id = ''s1''\<rparr> awaiting_world
   = (Inl (KeyError ''node_id''),
      \<lparr>session_states = [''s1'' \<mapsto>
        \<lparr>emergency = PStr ''Hemorragia Severa'', last_node_id = PInt 1,
         last_node_type = PStr ''question'', waiting_for_answer = True,
         last_interaction_time = seconds 10\<rparr>],
      timeout_tasks = Map.empty,
      conversation_memories = {''s1''},
      phrasing_calls = [(PStr ''La herida sangra mucho?'', ''s1'', PBool False, PStr ''question'')]\<rparr>)"
  by (simp add: awaiting_world_eq chat_def ensure_session_def handle_message_def text_simps
        reset_commands_def get_next_interaction_def lower_strip_def rel_type_of_def
        example_graph_def store_interaction_def getitem_def Let_def)

lemma chat_awaiting_reset:
  "chat example_graph gemini_down (seconds 10)
     \<lparr>message_text = ''reset'', session_id = ''s1''\<rparr> awaiting_world
   = (Inr (generic_fallback (PStr welcome_message)),
      \<lparr>session_states = [''s1'' \<mapsto>
        \<lparr>emergency = PNone, last_node_id = PNone,
         last_node_type = PNone, waiting_for_answer = False,
         last_interaction_time = seconds 10\<rparr>],
      timeout_tasks = Map.empty,
      conversation_memories = {''s1''},
      phrasing_calls = [(PStr ''La herida sangra mucho?'', ''s1'', PBool False, PStr ''question''),
        (PStr welcome_message, ''s1'', PBool False, PStr ''initial_message'')]\<rparr>)"
  by (simp add: awaiting_world_eq chat_def ensure_session_def handle_message_def text_simps
        reset_commands_def generate_llm_response_def gemini_down_def Let_def)

lemma chat_in_step_listo:
  "chat example_graph gemini_down (seconds 20)
     \<lparr>message_text = ''listo'', session_id = ''s1''\<rparr> in_step_world
   = (Inl (KeyError ''node_id''),
      \<lparr>session_states = [''s1'' \<mapsto>
        \<lparr>emergency = PStr ''Hemorragia Severa'', last_node_id = PInt 2,
         last_node_type = PStr ''step'', waiting_for_answer = False,
         last_interaction_time = seconds 20\<rparr>],
      timeout_tasks = Map.empty,
      conversation_memories = {''s1''},
      phrasing_calls = [(PStr ''La herida sangra mucho?'', ''s1'', PBool False, PStr ''question''),
        (PStr ''Presione la herida con un pano limpio'', ''s1'', PBool False, PStr ''step'')]\<rparr>)"
  by (simp add: in_step_world_eq chat_def ensure_session_def handle_message_def text_simps
        reset_commands_def get_next_interaction_def example_graph_def
        store_interaction_def getitem_def Let_def)

lemma chat_in_step_siguiente_paso:
  "chat example_graph gemini_down (seconds 20)
     \<lparr>message_text = ''Siguiente paso'', session_id = ''s1''\<rparr> in_step_world
   = (Inl (KeyError ''node_id''),
      \<lparr>session_states = [''s1'' \<mapsto>
        \<lparr>emergency = PStr ''Hemorragia Severa'', last_node_id = PInt 2,
         last_node_type = PStr ''step'', waiting_for_answer = False,
         last_interaction_time = seconds 20\<rparr>],
      timeout_tasks = Map.empty,
      conversation_memories = {''s1''},
      phrasing_calls = [(PStr ''La herida sangra mucho?'', ''s1'', PBool False, PStr ''question''),
        (PStr ''Presione la herida con un pano limpio'', ''s1'', PBool False, PStr ''step'')]\<rparr>)"
  by (simp add: in_step_world_eq chat_def ensure_session_def handle_message_def text_simps
        reset_commands_def get_next_interaction_def example_graph_def
        store_interaction_def getitem_def Let_def)

lemma chat_initial_ojo:
  "chat example_graph gemini_down 0 ojo_message initial_world
   = (Inl (KeyError ''node_id''),
      \<lparr>session_states = [''s2'' \<mapsto>
        \<lparr>emergency = PStr (''Cuerpo Extra'' @ [CHR 0xF1] @ ''o en el Ojo''), last_node_id = PNone,
         last_node_type = PNone, waiting_for_answer = False,
         last_interaction_time = 0\<rparr>],
      timeout_tasks = Map.empty,
      conversation_memories = {''s2''},
      phrasing_calls = []\<rparr>)"
  by (simp add: ojo_message_def initial_world_def chat_def ensure_session_def handle_message_def
        text_simps reset_commands_def new_session_state_def identify_ojo unrecognized_message_def
        get_next_interaction_def example_graph_def store_interaction_def getitem_def Let_def)


section \<open>What the handler does with a resolver result that has no node\<close>

text \<open>
  The resolver's results of kind \<open>end\<close>, \<open>clarify\<close> and \<open>error\<close> are dicts without the key
  \<^verbatim>\<open>node_id\<close> (lines 105, 138, 141, 165 and 168), and the handler reads
  \<^verbatim>\<open>next_interaction["node_id"]\<close> after every call of the resolver (lines 444, 471 and 488).
\<close>

text \<open>
  C1. The claim is that the handler answers every message with a text, whatever the
  resolver returns. On the code it does not: a session that waits for an answer and gets
  \<open>tal vez\<close> makes the resolver return its \<open>clarify\<close> result, and the handler leaves with
  \<^verbatim>\<open>KeyError: 'node_id'\<close> instead of a response. The same happens for a missing edge (answer
  \<open>no\<close>) and for an emergency without questions.
\<close>

theorem chat_fails_on_clarify:
  "session_states awaiting_world ''s1'' =
     Some \<lparr>emergency = PStr ''Hemorragia Severa'', last_node_id = PInt 1,
           last_node_type = PStr ''question'', waiting_for_answer = True,
           last_interaction_time = 0\<rparr>
   \<and> get_next_interaction example_graph (PStr ''Hemorragia Severa'') (PStr ''tal vez'')
        (PInt 1) (PStr ''question'') True
      = Inr [''type'' \<mapsto> PStr ''clarify'', ''content'' \<mapsto> PStr clarify_message,
             ''is_end'' \<mapsto> PBool False]
   \<and> fst (chat example_graph gemini_down (seconds 10)
            \<lparr>message_text = ''tal vez'', session_id = ''s1''\<rparr> awaiting_world)
      = Inl (KeyError ''node_id'')
   \<and> fst (chat example_graph gemini_down (seconds 10)
            \<lparr>message_text = ''no'', session_id = ''s1''\<rparr> awaiting_world)
      = Inl (KeyError ''node_id'')
   \<and> fst (chat example_graph gemini_down 0 ojo_message initial_world)
      = Inl (KeyError ''node_id'')"
proof (intro conjI)
  show "session_states awaiting_world ''s1'' =
     Some \<lparr>emergency = PStr ''Hemorragia Severa'', last_node_id = PInt 1,
           last_node_type = PStr ''question'', waiting_for_answer = True,
           last_interaction_time = 0\<rparr>"
    by (simp add: awaiting_world_eq)
  show "get_next_interaction example_graph (PStr ''Hemorragia Severa'') (PStr ''tal vez'')
        (PInt 1) (PStr ''question'') True
      = Inr [''type'' \<mapsto> PStr ''clarify'', ''content'' \<mapsto> PStr clarify_message,
             ''is_end'' \<mapsto> PBool False]"
    by (simp add: get_next_interaction_def lower_strip_def rel_type_of_def text_simps)
  show "fst (chat example_graph gemini_down (seconds 10)
            \<lparr>message_text = ''tal vez'', session_id = ''s1''\<rparr> awaiting_world)
      = Inl (KeyError ''node_id'')"
    by (simp add: chat_awaiting_tal_vez)
  show "fst (chat example_graph gemini_down (seconds 10)
            \<lparr>message_text = ''no'', session_id = ''s1''\<rparr> awaiting_world)
      = Inl (KeyError ''node_id'')"
    by (simp add: chat_awaiting_no)
  show "fst (chat example_graph gemini_down 0 ojo_message initial_world)
      = Inl (KeyError ''node_id'')"
    by (simp add: chat_initial_ojo)
qed

text \<open>
  C2. The claim is that every terminal resolver outcome reaches the phrasing step with the
  escalation flag set. On the code no terminal outcome reaches the phrasing step: for the
  answer \<open>no\<close> the resolver returns a result with \<^verbatim>\<open>is_end\<close> true, the handler leaves with
  \<^verbatim>\<open>KeyError\<close>, and \<^verbatim>\<open>_generate_llm_response\<close> has not been called.
\<close>

theorem terminal_outcome_never_phrased:
  "get_next_interaction example_graph (PStr ''Hemorragia Severa'') (PStr ''no'')
        (PInt 1) (PStr ''question'') True
      = Inr [''type'' \<mapsto> PStr ''end'', ''content'' \<mapsto> PStr no_next_step_message,
             ''is_end'' \<mapsto> PBool True]
   \<and> fst (chat example_graph gemini_down (seconds 10)
            \<lparr>message_text = ''no'', session_id = ''s1''\<rparr> awaiting_world)
      = Inl (KeyError ''node_id'')
   \<and> phrasing_calls (snd (chat example_graph gemini_down (seconds 10)
            \<lparr>message_text = ''no'', session_id = ''s1''\<rparr> awaiting_world))
      = phrasing_calls awaiting_world"
proof (intro conjI)
  show "get_next_interaction example_graph (PStr ''Hemorragia Severa'') (PStr ''no'')
        (PInt 1) (PStr ''question'') True
      = Inr [''type'' \<mapsto> PStr ''end'', ''content'' \<mapsto> PStr no_next_step_message,
             ''is_end'' \<mapsto> PBool True]"
    by (simp add: get_next_interaction_def lower_strip_def rel_type_of_def text_simps
          example_graph_def)
  show "fst (chat example_graph gemini_down (seconds 10)
            \<lparr>message_text = ''no'', session_id = ''s1''\<rparr> awaiting_world)
      = Inl (KeyError ''node_id'')"
    by (simp add: chat_awaiting_no)
  show "phrasing_calls (snd (chat example_graph gemini_down (seconds 10)
            \<lparr>message_text = ''no'', session_id = ''s1''\<rparr> awaiting_world))
      = phrasing_calls awaiting_world"
    unfolding chat_awaiting_no by (simp add: awaiting_world_eq)
qed

text \<open>
  C5. The claim is that a terminal resolver result puts the session into the ended
  configuration (no emergency, last node type \<open>end\<close>) on each of the three branches. On the
  code it does on none: after the terminal result the session of the active flow and of
  \<open>siguiente paso\<close> still has its emergency and its last node type \<open>step\<close>, and the session
  of the new emergency has the emergency set and the last node type \<^verbatim>\<open>None\<close>.
\<close>

theorem terminal_result_not_ended:
  "get_next_interaction example_graph (PStr ''Hemorragia Severa'') (PStr ''listo'')
        (PInt 2) (PStr ''step'') False
      = Inr [''type'' \<mapsto> PStr ''end'', ''content'' \<mapsto> PStr end_of_branch_message,
             ''is_end'' \<mapsto> PBool True]
   \<and> session_states (snd (chat example_graph gemini_down (seconds 20)
            \<lparr>message_text = ''listo'', session_id = ''s1''\<rparr> in_step_world)) ''s1''
      = Some \<lparr>emergency = PStr ''Hemorragia Severa'', last_node_id = PInt 2,
              last_node_type = PStr ''step'', waiting_for_answer = False,
              last_interaction_time = seconds 20\<rparr>
   \<and> session_states (snd (chat example_graph gemini_down (seconds 20)
            \<lparr>message_text = ''Siguiente paso'', session_id = ''s1''\<rparr> in_step_world)) ''s1''
      = Some \<lparr>emergency = PStr ''Hemorragia Severa'', last_node_id = PInt 2,
              last_node_type = PStr ''step'', waiting_for_answer = False,
              last_interaction_time = seconds 20\<rparr>
   \<and> session_states (snd (chat example_graph gemini_down 0 ojo_message initial_world)) ''s2''
      = Some \<lparr>emergency = PStr (''Cuerpo Extra'' @ [CHR 0xF1] @ ''o en el Ojo''),
              last_node_id = PNone, last_node_type = PNone, waiting_for_answer = False,
              last_interaction_time = 0\<rparr>"
proof (intro conjI)
  show "get_next_interaction example_graph (PStr ''Hemorragia Severa'') (PStr ''listo'')
        (PInt 2) (PStr ''step'') False
      = Inr [''type'' \<mapsto> PStr ''end'', ''content'' \<mapsto> PStr end_of_branch_message,
             ''is_end'' \<mapsto> PBool True]"
    by (simp add: get_next_interaction_def example_graph_def)
  show "session_states (snd (chat example_graph gemini_down (seconds 20)
            \<lparr>message_text = ''listo'', session_id = ''s1''\<rparr> in_step_world)) ''s1''
      = Some \<lparr>emergency = PStr ''Hemorragia Severa'', last_node_id = PInt 2,
              last_node_type = PStr ''step'', waiting_for_answer = False,
              last_interaction_time = seconds 20\<rparr>"
    by (simp add: chat_in_step_listo)
  show "session_states (snd (chat example_graph gemini_down (seconds 20)
            \<lparr>message_text = ''Siguiente paso'', session_id = ''s1''\<rparr> in_step_world)) ''s1''
      = Some \<lparr>emergency = PStr ''Hemorragia Severa'', last_node_id = PInt 2,
              last_node_type = PStr ''step'', waiting_for_answer = False,
              last_interaction_time = seconds 20\<rparr>"
    by (simp add: chat_in_step_siguiente_paso)
  show "session_states (snd (chat example_graph gemini_down 0 ojo_message initial_world)) ''s2''
      = Some \<lparr>emergency = PStr (''Cuerpo Extra'' @ [CHR 0xF1] @ ''o en el Ojo''),
              last_node_id = PNone, last_node_type = PNone, waiting_for_answer = False,
              last_interaction_time = 0\<rparr>"
    by (simp add: chat_initial_ojo)
qed

text \<open>
  C8. The claim is that a message cancels the session's timeout task and that a new one is
  scheduled exactly when the resulting state waits for an answer. The cancellation holds;
  but after \<open>tal vez\<close> the session still waits for its answer and has no timeout task.
\<close>

theorem timer_not_rearmed_after_failure:
  "timeout_tasks awaiting_world ''s1'' = Some (Sleeping (seconds 60))
   \<and> fst (chat example_graph gemini_down (seconds 10)
            \<lparr>message_text = ''tal vez'', session_id = ''s1''\<rparr> awaiting_world)
      = Inl (KeyError ''node_id'')
   \<and> map_option waiting_for_answer
        (session_states (snd (chat example_graph gemini_down (seconds 10)
            \<lparr>message_text = ''tal vez'', session_id = ''s1''\<rparr> awaiting_world)) ''s1'')
      = Some True
   \<and> timeout_tasks (snd (chat example_graph gemini_down (seconds 10)
            \<lparr>message_text = ''tal vez'', session_id = ''s1''\<rparr> awaiting_world)) ''s1''
      = None"
proof (intro conjI)
  show "timeout_tasks awaiting_world ''s1'' = Some (Sleeping (seconds 60))"
    by (simp add: awaiting_world_eq)
qed (simp_all add: chat_awaiting_tal_vez)


section \<open>The invariant of the session state\<close>

lemma timeout_fires_session_states:
  assumes "timeout_fires sid now w = Some w'"
  shows "session_states w' = session_states w
       \<or> session_states w' = (session_states w)(sid \<mapsto>
            \<lparr>emergency = PNone, last_node_id = PNone, last_node_type = PNone,
             waiting_for_answer = False, last_interaction_time = now\<rparr>)"
  using assms
  by (auto simp: timeout_fires_def reset_if_no_response_def
      split: option.splits task.splits if_splits)

text \<open>
  C4. In every world the service can reach, by messages in any branch of the handler and
  by timeouts, a session that waits for an answer has a question as its last node.
\<close>

theorem waiting_implies_question:
  assumes "reachable g llm w"
    and "session_states w sid = Some st"
    and "waiting_for_answer st"
  shows "last_node_type st = PStr ''question''"
  using assms
proof (induction arbitrary: sid st rule: reachable.induct)
  case start
  then show ?case by (simp add: initial_world_def)
next
  case (message w now m)
  let ?st0 = "(case session_states w (session_id m) of
                  None \<Rightarrow> new_session_state now | Some st \<Rightarrow> st)
               \<lparr>last_interaction_time := now\<rparr>"
  show ?case
  proof (cases "sid = session_id m")
    case True
    have "waiting_for_answer ?st0 \<longrightarrow> last_node_type ?st0 = PStr ''question''"
      using message.IH[of "session_id m"]
      by (auto simp: new_session_state_def split: option.splits)
    from handle_message_waiting[OF this, of g "message_text m"] message.prems True
    show ?thesis
      by (simp add: chat_session_states)
  next
    case False
    with message.prems have "session_states w sid = Some st"
      by (simp add: chat_session_states)
    with message.IH message.prems(2) show ?thesis by blast
  qed
next
  case (timeout w sid' now w')
  from timeout_fires_session_states[OF timeout.hyps(2)] timeout.prems timeout.IH
  show ?case
    by (auto split: if_splits)
qed

theorem waiting_implies_question_witness:
  "reachable example_graph gemini_down awaiting_world
   \<and> session_states awaiting_world ''s1'' =
       Some \<lparr>emergency = PStr ''Hemorragia Severa'', last_node_id = PInt 1,
             last_node_type = PStr ''question'', waiting_for_answer = True,
             last_interaction_time = 0\<rparr>
   \<and> waiting_for_answer \<lparr>emergency = PStr ''Hemorragia Severa'', last_node_id = PInt 1,
             last_node_type = PStr ''question'', waiting_for_answer = True,
             last_interaction_time = 0\<rparr>
   \<and> last_node_type \<lparr>emergency = PStr ''Hemorragia Severa'', last_node_id = PInt 1,
             last_node_type = PStr ''question'', waiting_for_answer = True,
             last_interaction_time = 0\<rparr> = PStr ''question''"
proof -
  have r: "reachable example_graph gemini_down awaiting_world"
    unfolding awaiting_world_def by (rule reachable.message[OF reachable.start])
  have s: "session_states awaiting_world ''s1'' =
       Some \<lparr>emergency = PStr ''Hemorragia Severa'', last_node_id = PInt 1,
             last_node_type = PStr ''question'', waiting_for_answer = True,
             last_interaction_time = 0\<rparr>"
    by (simp add: awaiting_world_eq)
  have w: "waiting_for_answer \<lparr>emergency = PStr ''Hemorragia Severa'', last_node_id = PInt 1,
             last_node_type = PStr ''question'', waiting_for_answer = True,
             last_interaction_time = 0\<rparr>"
    by simp
  from waiting_implies_question[OF r s w] r s w show ?thesis by blast
qed


section \<open>The reset command\<close>

text \<open>
  C6. A message whose lowercased, stripped text is one of the reset commands leaves the
  session with no emergency, no last node and not waiting, whatever the session was; the
  content handed to the phrasing step is the welcome prompt; the handler answers; and a
  second reset command leaves the same state (but for the time of the last interaction).
\<close>

theorem reset_command_resets:
  assumes "strip (lower (message_text m)) \<in> set reset_commands"
  shows "session_states (snd (chat g llm now m w)) (session_id m) =
           Some \<lparr>emergency = PNone, last_node_id = PNone, last_node_type = PNone,
                 waiting_for_answer = False, last_interaction_time = now\<rparr>
       \<and> phrasing_calls (snd (chat g llm now m w)) =
           phrasing_calls w
             @ [(PStr welcome_message, session_id m, PBool False, PStr ''initial_message'')]
       \<and> (\<exists>response. fst (chat g llm now m w) = Inr response)
       \<and> timeout_tasks (snd (chat g llm now m w)) (session_id m) = None
       \<and> (\<forall>m' now'. session_id m' = session_id m
              \<and> strip (lower (message_text m')) \<in> set reset_commands \<longrightarrow>
            session_states (snd (chat g llm now' m' (snd (chat g llm now m w)))) (session_id m) =
              Some \<lparr>emergency = PNone, last_node_id = PNone, last_node_type = PNone,
                    waiting_for_answer = False, last_interaction_time = now'\<rparr>)"
proof -
  have r: "\<And>m now w. strip (lower (message_text m)) \<in> set reset_commands \<Longrightarrow>
      session_states (snd (chat g llm now m w)) (session_id m) =
           Some \<lparr>emergency = PNone, last_node_id = PNone, last_node_type = PNone,
                 waiting_for_answer = False, last_interaction_time = now\<rparr>"
    by (simp add: chat_session_states handle_message_reset)
  have "phrasing_calls (snd (chat g llm now m w)) =
           phrasing_calls w
             @ [(PStr welcome_message, session_id m, PBool False, PStr ''initial_message'')]"
    using assms by (simp add: chat_phrasing_calls handle_message_reset)
  moreover have "\<exists>response. fst (chat g llm now m w) = Inr response"
    using assms by (simp add: chat_response handle_message_reset)
  moreover have "timeout_tasks (snd (chat g llm now m w)) (session_id m) = None"
    using assms by (simp add: chat_timeout_tasks handle_message_reset)
  ultimately show ?thesis
    using r[OF assms] r by metis
qed

theorem reset_command_resets_witness:
  "strip (lower '' Reiniciar '') \<in> set reset_commands
   \<and> session_states (snd (chat example_graph gemini_down (seconds 30)
         \<lparr>message_text = '' Reiniciar '', session_id = ''s1''\<rparr> in_step_world)) ''s1'' =
       Some \<lparr>emergency = PNone, last_node_id = PNone, last_node_type = PNone,
             waiting_for_answer = False, last_interaction_time = seconds 30\<rparr>"
proof -
  have h: "strip (lower (message_text \<lparr>message_text = '' Reiniciar '', session_id = ''s1''\<rparr>))
      \<in> set reset_commands"
    by (simp add: text_simps reset_commands_def)
  from reset_command_resets[OF h, of example_graph gemini_down "seconds 30" in_step_world] h
  show ?thesis by simp
qed


section \<open>The idle timeout\<close>

lemma chat_last_interaction_time:
  "\<exists>st. session_states (snd (chat g llm now m w)) (session_id m) = Some st
        \<and> last_interaction_time st = now"
  by (simp add: chat_session_states handle_message_time)

text \<open>
  C7. The timeout task of a session sleeps 60 seconds: the handler schedules it to wake 60
  seconds after the message, and it fires no earlier. When it fires and the session's last
  interaction is less than 55 seconds old, nothing but the task itself changes; otherwise
  the session is reset to no emergency, no last node and not waiting, and its memory is
  dropped. After a message at the instant \<open>t0\<close> the body of a task run less than 55
  seconds later changes nothing; in particular, after a message at 56 s, neither does the
  body run at 60 s change anything, nor is there a task left that could fire at 60 s.
\<close>

theorem idle_timeout:
  "timeout_delay = seconds 60
   \<and> (\<forall>g llm now m w tk.
         timeout_tasks (snd (chat g llm now m w)) (session_id m) = Some tk
         \<longrightarrow> tk = Sleeping (now + seconds 60))
   \<and> (\<forall>sid now w w'.
         timeout_fires sid now w = Some w'
         \<longrightarrow> (\<exists>wake. timeout_tasks w sid = Some (Sleeping wake) \<and> wake \<le> now))
   \<and> (\<forall>sid now w st wake.
         session_states w sid = Some st \<and> timeout_tasks w sid = Some (Sleeping wake)
           \<and> wake \<le> now
         \<longrightarrow> (if now - last_interaction_time st < seconds 55
              then timeout_fires sid now w
                     = Some (w\<lparr>timeout_tasks := (timeout_tasks w)(sid \<mapsto> Finished)\<rparr>)
              else timeout_fires sid now w
                     = Some (w\<lparr>timeout_tasks := (timeout_tasks w)(sid \<mapsto> Finished),
                              session_states := (session_states w)(sid \<mapsto>
                                \<lparr>emergency = PNone, last_node_id = PNone,
                                 last_node_type = PNone, waiting_for_answer = False,
                                 last_interaction_time = now\<rparr>),
                              conversation_memories := conversation_memories w - {sid}\<rparr>)))
   \<and> (\<forall>g llm t0 m w t1.
         t1 - t0 < seconds 55
         \<longrightarrow> reset_if_no_response (session_id m) t1 (snd (chat g llm t0 m w))
               = snd (chat g llm t0 m w))
   \<and> (\<forall>g llm m w.
         reset_if_no_response (session_id m) (seconds 60) (snd (chat g llm (seconds 56) m w))
           = snd (chat g llm (seconds 56) m w)
         \<and> timeout_fires (session_id m) (seconds 60) (snd (chat g llm (seconds 56) m w))
           = None)"
proof (intro conjI allI impI)
  show "timeout_delay = seconds 60" by (simp add: timeout_delay_def)
next
  fix g llm now m w tk
  assume "timeout_tasks (snd (chat g llm now m w)) (session_id m) = Some tk"
  then show "tk = Sleeping (now + seconds 60)"
    by (auto simp: chat_timeout_tasks Let_def timeout_delay_def split: sum.splits if_splits)
next
  fix sid now and w w' :: world
  assume "timeout_fires sid now w = Some w'"
  then show "\<exists>wake. timeout_tasks w sid = Some (Sleeping wake) \<and> wake \<le> now"
    by (auto simp: timeout_fires_def split: option.splits task.splits if_splits)
next
  fix sid now wake and w :: world and st :: session_state
  assume "session_states w sid = Some st \<and> timeout_tasks w sid = Some (Sleeping wake)
           \<and> wake \<le> now"
  then show "if now - last_interaction_time st < seconds 55
              then timeout_fires sid now w
                     = Some (w\<lparr>timeout_tasks := (timeout_tasks w)(sid \<mapsto> Finished)\<rparr>)
              else timeout_fires sid now w
                     = Some (w\<lparr>timeout_tasks := (timeout_tasks w)(sid \<mapsto> Finished),
                              session_states := (session_states w)(sid \<mapsto>
                                \<lparr>emergency = PNone, last_node_id = PNone,
                                 last_node_type = PNone, waiting_for_answer = False,
                                 last_interaction_time = now\<rparr>),
                              conversation_memories := conversation_memories w - {sid}\<rparr>)"
    by (simp add: timeout_fires_def reset_if_no_response_def)
next
  fix g llm t0 m w t1
  assume "t1 - t0 < seconds 55"
  with chat_last_interaction_time[of g llm t0 m w]
  show "reset_if_no_response (session_id m) t1 (snd (chat g llm t0 m w))
               = snd (chat g llm t0 m w)"
    by (auto simp: reset_if_no_response_def)
next
  fix g llm m w
  from chat_last_interaction_time[of g llm "seconds 56" m w]
  show "reset_if_no_response (session_id m) (seconds 60) (snd (chat g llm (seconds 56) m w))
           = snd (chat g llm (seconds 56) m w)"
    by (auto simp: reset_if_no_response_def seconds_def)
next
  fix g llm m w
  show "timeout_fires (session_id m) (seconds 60) (snd (chat g llm (seconds 56) m w)) = None"
    by (auto simp: timeout_fires_def chat_timeout_tasks Let_def timeout_delay_def seconds_def
        split: option.splits task.splits sum.splits if_splits)
qed

theorem idle_timeout_witness:
  "session_states awaiting_world ''s1'' =
       Some \<lparr>emergency = PStr ''Hemorragia Severa'', last_node_id = PInt 1,
             last_node_type = PStr ''question'', waiting_for_answer = True,
             last_interaction_time = 0\<rparr>
   \<and> timeout_tasks awaiting_world ''s1'' = Some (Sleeping (seconds 60))
   \<and> seconds 60 \<le> seconds 60
   \<and> timeout_fires ''s1'' (seconds 60) awaiting_world
       = Some \<lparr>session_states = [''s1'' \<mapsto>
                 \<lparr>emergency = PNone, last_node_id = PNone, last_node_type = PNone,
                  waiting_for_answer = False, last_interaction_time = seconds 60\<rparr>],
               timeout_tasks = [''s1'' \<mapsto> Finished],
               conversation_memories = {},
               phrasing_calls = [(PStr ''La herida sangra mucho?'', ''s1'', PBool False,
                                  PStr ''question'')]\<rparr>
   \<and> seconds 60 - seconds 56 < seconds 55
   \<and> reset_if_no_response ''s1'' (seconds 60)
        (snd (chat example_graph gemini_down (seconds 56)
               \<lparr>message_text = ''Si'', session_id = ''s1''\<rparr> awaiting_world))
      = snd (chat example_graph gemini_down (seconds 56)
               \<lparr>message_text = ''Si'', session_id = ''s1''\<rparr> awaiting_world)"
proof -
  have s: "session_states awaiting_world ''s1'' =
       Some \<lparr>emergency = PStr ''Hemorragia Severa'', last_node_id = PInt 1,
             last_node_type = PStr ''question'', waiting_for_answer = True,
             last_interaction_time = 0\<rparr>"
    and t: "timeout_tasks awaiting_world ''s1'' = Some (Sleeping (seconds 60))"
    by (simp_all add: awaiting_world_eq)
  have l: "seconds 60 - seconds 56 < seconds 55" by (simp add: seconds_def)
  note th = idle_timeout[THEN conjunct2, THEN conjunct2, THEN conjunct2]
  from th[THEN conjunct1, rule_format, where w=awaiting_world and sid="''s1''"
          and now="seconds 60" and wake="seconds 60"] s t
  have f: "timeout_fires ''s1'' (seconds 60) awaiting_world
       = Some \<lparr>session_states = [''s1'' \<mapsto>
                 \<lparr>emergency = PNone, last_node_id = PNone, last_node_type = PNone,
                  waiting_for_answer = False, last_interaction_time = seconds 60\<rparr>],
               timeout_tasks = [''s1'' \<mapsto> Finished],
               conversation_memories = {},
               phrasing_calls = [(PStr ''La herida sangra mucho?'', ''s1'', PBool False,
                                  PStr ''question'')]\<rparr>"
    by (simp add: awaiting_world_eq seconds_def)
  from th[THEN conjunct2, THEN conjunct1, rule_format, OF l,
          where g=example_graph and llm=gemini_down and w=awaiting_world
          and m="\<lparr>message_text = ''Si'', session_id = ''s1''\<rparr>"]
  have n: "reset_if_no_response ''s1'' (seconds 60)
        (snd (chat example_graph gemini_down (seconds 56)
               \<lparr>message_text = ''Si'', session_id = ''s1''\<rparr> awaiting_world))
      = snd (chat example_graph gemini_down (seconds 56)
               \<lparr>message_text = ''Si'', session_id = ''s1''\<rparr> awaiting_world)"
    by simp
  from s t f l n show ?thesis by simp
qed


section \<open>An answer that is neither yes nor no\<close>

text \<open>
  For a session that waits for the answer to a question, a message that is not a reset
  command and in which the resolver finds neither an affirmative nor a negative token: the
  resolver returns its \<open>clarify\<close> result, which has no \<^verbatim>\<open>node_id\<close>; the handler leaves with
  \<^verbatim>\<open>KeyError\<close> at line 488, before the phrasing step and before the timer is scheduled. The
  session is as it was only because the writes of lines 488-490 are never reached.
\<close>

lemma ambiguous_answer_raises:
  assumes "session_states w (session_id m) = Some st"
    and "waiting_for_answer st"
    and "last_node_type st = PStr ''question''"
    and "emergency st \<noteq> PNone"
    and "strip (lower (message_text m)) \<notin> set reset_commands"
    and "rel_type_of (strip (lower (message_text m))) = None"
  shows "get_next_interaction g (emergency st) (PStr (message_text m)) (last_node_id st)
           (last_node_type st) (waiting_for_answer st)
         = Inr [''type'' \<mapsto> PStr ''clarify'', ''content'' \<mapsto> PStr clarify_message,
                ''is_end'' \<mapsto> PBool False]"
    and "fst (chat g llm now m w) = Inl (KeyError ''node_id'')"
    and "phrasing_calls (snd (chat g llm now m w)) = phrasing_calls w"
    and "timeout_tasks (snd (chat g llm now m w)) (session_id m) = None"
    and "session_states (snd (chat g llm now m w)) (session_id m)
         = Some (st\<lparr>last_interaction_time := now\<rparr>)"
proof -
  let ?u = "strip (lower (message_text m))"
  let ?st = "st\<lparr>last_interaction_time := now\<rparr>"
  have gni: "\<And>nid. get_next_interaction g (emergency st) (PStr (message_text m)) nid
           (PStr ''question'') True
         = Inr [''type'' \<mapsto> PStr ''clarify'', ''content'' \<mapsto> PStr clarify_message,
                ''is_end'' \<mapsto> PBool False]"
    using assms(6) by (simp add: get_next_interaction_def lower_strip_def)
  have b: "\<not> (?u = ''siguiente paso'' \<and> last_node_type ?st = PStr ''step''
              \<and> \<not> waiting_for_answer ?st)"
    using assms(2) by simp
  have c: "\<not> (emergency ?st = PNone \<or> last_node_type ?st = PStr ''end'')"
    using assms(3,4) by simp
  have h: "handle_message g (message_text m) ?st = (Inl (KeyError ''node_id''), ?st)"
    unfolding handle_message_continue[OF assms(5) b c, of g]
    using assms(2,3)
    by (simp add: gni store_interaction_missing_node_id)
  show "get_next_interaction g (emergency st) (PStr (message_text m)) (last_node_id st)
           (last_node_type st) (waiting_for_answer st)
         = Inr [''type'' \<mapsto> PStr ''clarify'', ''content'' \<mapsto> PStr clarify_message,
                ''is_end'' \<mapsto> PBool False]"
    using gni assms(2,3) by simp
  show "fst (chat g llm now m w) = Inl (KeyError ''node_id'')"
    using assms(1) h by (simp add: chat_response)
  show "phrasing_calls (snd (chat g llm now m w)) = phrasing_calls w"
    using assms(1) h by (simp add: chat_phrasing_calls)
  show "timeout_tasks (snd (chat g llm now m w)) (session_id m) = None"
    using assms(1) h by (simp add: chat_timeout_tasks)
  show "session_states (snd (chat g llm now m w)) (session_id m) = Some ?st"
    using assms(1) h by (simp add: chat_session_states)
qed

text \<open>
  C3. The claim is that such a message yields a clarify response and leaves the session
  unchanged. On the code no response is yielded: the session \<open>s1\<close> waits for its answer,
  the message \<open>Quizas\<close> makes the resolver return \<open>clarify\<close>, and the handler leaves with
  \<^verbatim>\<open>KeyError: 'node_id'\<close>; nothing has been handed to the phrasing step and no timeout task
  is left, while the session still waits.
\<close>

theorem ambiguous_answer_not_clarified:
  "session_states awaiting_world ''s1'' =
     Some \<lparr>emergency = PStr ''Hemorragia Severa'', last_node_id = PInt 1,
           last_node_type = PStr ''question'', waiting_for_answer = True,
           last_interaction_time = 0\<rparr>
   \<and> rel_type_of (strip (lower '' Quizas '')) = None
   \<and> get_next_interaction example_graph (PStr ''Hemorragia Severa'') (PStr '' Quizas '')
        (PInt 1) (PStr ''question'') True
      = Inr [''type'' \<mapsto> PStr ''clarify'', ''content'' \<mapsto> PStr clarify_message,
             ''is_end'' \<mapsto> PBool False]
   \<and> fst (chat example_graph gemini_down (seconds 10)
            \<lparr>message_text = '' Quizas '', session_id = ''s1''\<rparr> awaiting_world)
      = Inl (KeyError ''node_id'')
   \<and> phrasing_calls (snd (chat example_graph gemini_down (seconds 10)
            \<lparr>message_text = '' Quizas '', session_id = ''s1''\<rparr> awaiting_world))
      = phrasing_calls awaiting_world
   \<and> timeout_tasks (snd (chat example_graph gemini_down (seconds 10)
            \<lparr>message_text = '' Quizas '', session_id = ''s1''\<rparr> awaiting_world)) ''s1''
      = None
   \<and> session_states (snd (chat example_graph gemini_down (seconds 10)
            \<lparr>message_text = '' Quizas '', session_id = ''s1''\<rparr> awaiting_world)) ''s1''
      = Some \<lparr>emergency = PStr ''Hemorragia Severa'', last_node_id = PInt 1,
              last_node_type = PStr ''question'', waiting_for_answer = True,
              last_interaction_time = seconds 10\<rparr>"
proof -
  let ?m = "\<lparr>message_text = '' Quizas '', session_id = ''s1''\<rparr>"
  let ?st = "\<lparr>emergency = PStr ''Hemorragia Severa'', last_node_id = PInt 1,
             last_node_type = PStr ''question'', waiting_for_answer = True,
             last_interaction_time = 0\<rparr>"
  have s: "session_states awaiting_world (session_id ?m) = Some ?st"
    by (simp add: awaiting_world_eq)
  have u: "strip (lower '' Quizas '') = ''quizas''" by (simp add: text_simps)
  have r: "strip (lower (message_text ?m)) \<notin> set reset_commands"
    by (simp add: u reset_commands_def)
  have n: "rel_type_of (strip (lower (message_text ?m))) = None"
    by (simp add: u rel_type_of_def)
  have w: "waiting_for_answer ?st" and q: "last_node_type ?st = PStr ''question''"
    and e: "emergency ?st \<noteq> PNone"
    by simp_all
  note a = ambiguous_answer_raises[OF s w q e r n]
  show ?thesis
    using s n a(1)[where g=example_graph]
      a(2-5)[where g=example_graph and llm=gemini_down and now="seconds 10"]
    by simp
qed

end
